theory Spec2Isabelle
  imports Main
begin

section \<open>JavaScript values, thrown values and the world\<close>

text \<open>
  The values the modelled code handles. An \<open>Error\<close> instance carries its class name and its
  message; \<open>JClass c\<close> is a constructor function (a class of errors named \<open>c\<close>), the only
  kind of value that \<^verbatim>\<open>new\<close> accepts. Objects are association lists: the order and the
  exact spelling of the keys are kept.
\<close>

datatype jsval =
    JUndefined
  | JNull
  | JBool bool
  | JNum int
  | JStr string
  | JObj "(string \<times> jsval) list"
  | JError string string
  | JClass string

text \<open>Property read on an object literal: a missing key reads as \<^verbatim>\<open>undefined\<close>.\<close>

definition js_get :: "(string \<times> jsval) list \<Rightarrow> string \<Rightarrow> jsval" where
  "js_get kv k = (case map_of kv k of None \<Rightarrow> JUndefined | Some v \<Rightarrow> v)"

text \<open>
  \<^verbatim>\<open>new f(m)\<close> with a message \<open>m\<close>: a constructor builds an instance; any other value makes the
  \<^verbatim>\<open>new\<close> expression itself throw a \<open>TypeError\<close> naming the expression \<open>nm\<close>.
\<close>

fun js_new :: "string \<Rightarrow> jsval \<Rightarrow> string \<Rightarrow> jsval + jsval" where
  "js_new nm (JClass c) m = Inr (JError c m)"
| "js_new nm f m = Inl (JError ''TypeError'' (nm @ '' is not a constructor''))"

text \<open>
  \<^verbatim>\<open>error.message\<close>: reading a property of \<^verbatim>\<open>undefined\<close> or \<^verbatim>\<open>null\<close> throws.
\<close>

fun js_message :: "jsval \<Rightarrow> jsval + jsval" where
  "js_message (JError c m) = Inr (JStr m)"
| "js_message (JObj kv) = Inr (js_get kv ''message'')"
| "js_message JUndefined =
     Inl (JError ''TypeError'' ''Cannot read properties of undefined (reading 'message')'')"
| "js_message JNull =
     Inl (JError ''TypeError'' ''Cannot read properties of null (reading 'message')'')"
| "js_message v = Inr JUndefined"

fun is_TypeError :: "jsval \<Rightarrow> bool" where
  "is_TypeError (JError c m) = (c = ''TypeError'')"
| "is_TypeError v = False"

fun is_constructor :: "jsval \<Rightarrow> bool" where
  "is_constructor (JClass c) = True"
| "is_constructor v = False"

subsection \<open>Cookies, the response, the users table\<close>

datatype same_site = Strict | Lax | NoneSite

record cookie_options =
  httpOnly :: bool
  sameSite :: same_site
  secure :: bool
  maxAge :: nat

record account =
  acc_id :: nat
  acc_name :: string
  acc_email :: string
  acc_password :: string
  acc_role :: string
  acc_created_at :: nat
  acc_updated_at :: nat

text \<open>
  Everything the modelled functions can change: the calls received by the shared logger, the
  users table, the plaintexts handed to \<^verbatim>\<open>bcrypt.hash\<close>, the Express response
  (status, JSON body, cookies set) and the arguments \<^verbatim>\<open>next\<close> was called with.
\<close>

record world =
  logs :: "(string \<times> jsval list) list"
  users :: "account list"
  hash_calls :: "jsval list"
  res_status :: nat
  res_body :: "jsval option"
  res_cookies :: "(string \<times> string \<times> cookie_options) list"
  next_calls :: "jsval list"

definition world0 :: world where
  "world0 = \<lparr>logs = [], users = [], hash_calls = [], res_status = 200, res_body = None,
     res_cookies = [], next_calls = []\<rparr>"

subsection \<open>The shared logger\<close>

text \<open>
  The logger object is given by the names of the methods it has. Calling a method it has
  records the call and returns; calling a name it does not have throws
  \<^verbatim>\<open>TypeError: logger.<name> is not a function\<close>.
\<close>

type_synonym logger = "string list"

definition call_logger :: "logger \<Rightarrow> string \<Rightarrow> jsval list \<Rightarrow> world \<Rightarrow> jsval option \<times> world" where
  "call_logger lg m args w =
     (if m \<in> set lg then (None, w\<lparr>logs := logs w @ [(m, args)]\<rparr>)
      else (Some (JError ''TypeError'' (''logger.'' @ m @ '' is not a function'')), w))"

text \<open>
  Modelled from the spec: the shared logger of \<^verbatim>\<open>src/config/logger.js\<close>, which is not
  among the sources. It is a Winston logger; its methods are Winston's default levels.
\<close>

definition winston :: logger where
  "winston = [''error'', ''warn'', ''info'', ''http'', ''verbose'', ''debug'', ''silly'']"

section \<open>Password hashing (\<^verbatim>\<open>hashPassword\<close>)\<close>

text \<open>
  \<^verbatim>\<open>bcrypt.hash(password, rounds)\<close> is a parameter: it resolves with a digest (\<open>Inr\<close>) or
  rejects with a value (\<open>Inl\<close>). The result of \<open>hashPassword\<close> is the settled promise.
  The log message is a single-quoted literal, so \<^verbatim>\<open>${error}\<close> is not interpolated.
\<close>

type_synonym bcrypt = "jsval \<Rightarrow> nat \<Rightarrow> jsval + string"

definition hashPassword :: "bcrypt \<Rightarrow> logger \<Rightarrow> jsval \<Rightarrow> world \<Rightarrow> (jsval + string) \<times> world" where
  "hashPassword bcrypt_hash lg password w =
     (let w0 = w\<lparr>hash_calls := hash_calls w @ [password]\<rparr> in
      case bcrypt_hash password 10 of
        Inr digest \<Rightarrow> (Inr digest, w0)
      | Inl error \<Rightarrow>
          (case call_logger lg ''error'' [JStr ''Error hashing password: ${error}''] w0 of
             (Some ex, w1) \<Rightarrow> (Inl ex, w1)
           | (None, w1) \<Rightarrow>
               (case js_new ''error'' error ''Error hashing'' of
                  Inl ex \<Rightarrow> (Inl ex, w1)
                | Inr obj \<Rightarrow> (Inl obj, w1))))"

section \<open>Session tokens (\<^verbatim>\<open>jwttoken\<close>)\<close>

text \<open>
  The \<^verbatim>\<open>jsonwebtoken\<close> library is a parameter of the wrapper: \<open>lib_sign payload secret
  expiresIn now\<close> and \<open>lib_verify token secret now\<close> return (\<open>Inr\<close>) or throw (\<open>Inl\<close>). The
  secret is \<^verbatim>\<open>process.env.JWT_SECRET\<close>, absent when the variable is not set; \<open>now\<close> is
  the clock in seconds.
\<close>

record jwtlib =
  lib_sign :: "jsval \<Rightarrow> string option \<Rightarrow> string \<Rightarrow> nat \<Rightarrow> jsval + string"
  lib_verify :: "string \<Rightarrow> string option \<Rightarrow> nat \<Rightarrow> jsval + jsval"

definition JWT_EXPIRES_IN :: string where
  "JWT_EXPIRES_IN = ''1d''"

definition jwttoken_sign ::
  "jwtlib \<Rightarrow> logger \<Rightarrow> string option \<Rightarrow> nat \<Rightarrow> jsval \<Rightarrow> world \<Rightarrow> (jsval + string) \<times> world" where
  "jwttoken_sign jwt lg JWT_SECRET now payload w =
     (case lib_sign jwt payload JWT_SECRET JWT_EXPIRES_IN now of
        Inr token \<Rightarrow> (Inr token, w)
      | Inl e \<Rightarrow>
          (case call_logger lg ''e'' [JStr ''Errot authentication'', e] w of
             (Some ex, w1) \<Rightarrow> (Inl ex, w1)
           | (None, w1) \<Rightarrow> (Inl (JError ''Error'' ''Failed to authenticat''), w1)))"

definition jwttoken_verify ::
  "jwtlib \<Rightarrow> logger \<Rightarrow> string option \<Rightarrow> nat \<Rightarrow> string \<Rightarrow> world \<Rightarrow> (jsval + jsval) \<times> world" where
  "jwttoken_verify jwt lg JWT_SECRET now token w =
     (case lib_verify jwt token JWT_SECRET now of
        Inr payload \<Rightarrow> (Inr payload, w)
      | Inl e \<Rightarrow>
          (case call_logger lg ''error'' [JStr ''Failed to verify'', e] w of
             (Some ex, w1) \<Rightarrow> (Inl ex, w1)
           | (None, w1) \<Rightarrow> (Inl (JError ''Error'' ''Failed to verify''), w1)))"

subsection \<open>The token library, from the specification\<close>

text \<open>
  Modelled from the spec: the signing and verification that \<^verbatim>\<open>jsonwebtoken\<close> performs,
  which is not among the sources. Sections 3 and 4.2: a token encodes a payload, an issuance
  time and an expiry time fixed at one day from issuance, signed with the process-wide
  secret; signing fails when the secret is absent; verification fails when the token is
  malformed, signature-mismatched or expired, and returns the payload otherwise. The keyed
  signature \<open>mac\<close> and the string encoding of tokens are parameters. The error names are the
  library's; a token counts as expired from its expiry time on.
\<close>

record jwt =
  jwt_payload :: jsval
  jwt_iat :: nat
  jwt_exp :: nat
  jwt_signature :: string

record jwt_primitives =
  mac :: "string \<Rightarrow> jsval \<times> nat \<times> nat \<Rightarrow> string"
  encode :: "jwt \<Rightarrow> string"
  decode :: "string \<Rightarrow> jwt option"

definition timespan :: "string \<Rightarrow> nat option" where
  "timespan s = (if s = ''1d'' then Some (24 * 60 * 60) else None)"

definition issue :: "jwt_primitives \<Rightarrow> string \<Rightarrow> jsval \<Rightarrow> nat \<Rightarrow> nat \<Rightarrow> jwt" where
  "issue P s payload iat exp =
     \<lparr>jwt_payload = payload, jwt_iat = iat, jwt_exp = exp,
      jwt_signature = mac P s (payload, iat, exp)\<rparr>"

definition spec_sign ::
  "jwt_primitives \<Rightarrow> jsval \<Rightarrow> string option \<Rightarrow> string \<Rightarrow> nat \<Rightarrow> jsval + string" where
  "spec_sign P payload secret expiresIn now =
     (case secret of
        None \<Rightarrow> Inl (JError ''Error'' ''secretOrPrivateKey must have a value'')
      | Some s \<Rightarrow>
          (case timespan expiresIn of
             None \<Rightarrow> Inl (JError ''Error'' ''invalid expiresIn option'')
           | Some d \<Rightarrow> Inr (encode P (issue P s payload now (now + d)))))"

definition spec_verify ::
  "jwt_primitives \<Rightarrow> string \<Rightarrow> string option \<Rightarrow> nat \<Rightarrow> jsval + jsval" where
  "spec_verify P token secret now =
     (case secret of
        None \<Rightarrow> Inl (JError ''JsonWebTokenError'' ''secret or public key must be provided'')
      | Some s \<Rightarrow>
          (case decode P token of
             None \<Rightarrow> Inl (JError ''JsonWebTokenError'' ''jwt malformed'')
           | Some j \<Rightarrow>
               if jwt_signature j \<noteq> mac P s (jwt_payload j, jwt_iat j, jwt_exp j)
               then Inl (JError ''JsonWebTokenError'' ''invalid signature'')
               else if jwt_exp j \<le> now
               then Inl (JError ''TokenExpiredError'' ''jwt expired'')
               else Inr (jwt_payload j)))"

definition jsonwebtoken :: "jwt_primitives \<Rightarrow> jwtlib" where
  "jsonwebtoken P = \<lparr>lib_sign = spec_sign P, lib_verify = spec_verify P\<rparr>"

section \<open>The signup controller (\<^verbatim>\<open>signup\<close>)\<close>

text \<open>
  \<^verbatim>\<open>signupSchema.safeParse\<close> and \<^verbatim>\<open>formatValidationError\<close> are parameters. The only
  calls of the \<^verbatim>\<open>try\<close> block that can throw are those on the logger. The controller
  returns (its promise resolves) or throws (its promise rejects).
\<close>

datatype parse_result = ParseOk "(string \<times> jsval) list" | ParseFail jsval

datatype completion = Returned | Threw jsval

text \<open>\<^verbatim>\<open>res.status(code).json(body)\<close>\<close>

definition res_status_json :: "nat \<Rightarrow> jsval \<Rightarrow> world \<Rightarrow> world" where
  "res_status_json code b w = w\<lparr>res_status := code, res_body := Some b\<rparr>"

definition signup_try ::
  "(jsval \<Rightarrow> parse_result) \<Rightarrow> (jsval \<Rightarrow> jsval) \<Rightarrow> logger \<Rightarrow> jsval \<Rightarrow> world \<Rightarrow> completion \<times> world" where
  "signup_try safeParse formatValidationError lg req_body w =
     (case safeParse req_body of
        ParseFail zerr \<Rightarrow>
          (Returned,
           res_status_json 400
             (JObj [(''error'', JStr ''Validation failed''),
                    (''details'', formatValidationError zerr)]) w)
      | ParseOk data \<Rightarrow>
          (let name = js_get data ''name'';
               email = js_get data ''email'';
               role = js_get data ''role''
           in case call_logger lg ''info'' [JStr ''User registered succussfully: ${email}''] w of
                (Some ex, w1) \<Rightarrow> (Threw ex, w1)
              | (None, w1) \<Rightarrow>
                  (Returned,
                   res_status_json 201
                     (JObj [(''message'', JStr ''User registered''), (''Id'', JNum 1),
                            (''name'', name), (''email'', email), (''role'', role)]) w1)))"

definition signup_catch :: "logger \<Rightarrow> jsval \<Rightarrow> world \<Rightarrow> completion \<times> world" where
  "signup_catch lg error w =
     (case call_logger lg ''error'' [JStr ''signup error'', error] w of
        (Some ex, w1) \<Rightarrow> (Threw ex, w1)
      | (None, w1) \<Rightarrow>
          (case js_message error of
             Inl ex \<Rightarrow> (Threw ex, w1)
           | Inr m \<Rightarrow>
               if m = JStr ''User with this email already exists''
               then (Returned, res_status_json 409 (JObj [(''error'', JStr ''email already exists'')]) w1)
               else (Returned, w1\<lparr>next_calls := next_calls w1 @ [error]\<rparr>)))"

definition signup ::
  "(jsval \<Rightarrow> parse_result) \<Rightarrow> (jsval \<Rightarrow> jsval) \<Rightarrow> logger \<Rightarrow> jsval \<Rightarrow> world \<Rightarrow> completion \<times> world" where
  "signup safeParse formatValidationError lg req_body w =
     (case signup_try safeParse formatValidationError lg req_body w of
        (Returned, w1) \<Rightarrow> (Returned, w1)
      | (Threw error, w1) \<Rightarrow> signup_catch lg error w1)"

subsection \<open>The validation schema, from the specification\<close>

text \<open>
  Modelled from the spec: \<^verbatim>\<open>signupSchema.safeParse\<close> of
  \<^verbatim>\<open>src/validations/auth.validation.js\<close>, which is not among the sources. Section 6: the
  name is a non-empty string, the email has valid syntax, the password has a minimum length,
  the role is one of \<^verbatim>\<open>user\<close> and \<^verbatim>\<open>admin\<close> and defaults to \<^verbatim>\<open>user\<close>. The
  syntax check of emails and the minimum length are parameters.
\<close>

definition str_field :: "(string \<times> jsval) list \<Rightarrow> string \<Rightarrow> string option" where
  "str_field kv k = (case js_get kv k of JStr s \<Rightarrow> Some s | _ \<Rightarrow> None)"

definition role_field :: "(string \<times> jsval) list \<Rightarrow> string option" where
  "role_field kv =
     (case js_get kv ''role'' of JUndefined \<Rightarrow> Some ''user'' | JStr r \<Rightarrow> Some r | _ \<Rightarrow> None)"

definition signupSchema :: "(string \<Rightarrow> bool) \<Rightarrow> nat \<Rightarrow> jsval \<Rightarrow> parse_result" where
  "signupSchema valid_email min_length body =
     (case body of
        JObj kv \<Rightarrow>
          (case (str_field kv ''name'', str_field kv ''email'', str_field kv ''password'',
                 role_field kv) of
             (Some n, Some e, Some p, Some r) \<Rightarrow>
               if n \<noteq> [] \<and> valid_email e \<and> min_length \<le> length p
                  \<and> r \<in> set [''user'', ''admin'']
               then ParseOk [(''name'', JStr n), (''email'', JStr e), (''password'', JStr p),
                             (''role'', JStr r)]
               else ParseFail (JError ''ZodError'' ''invalid field'')
           | _ \<Rightarrow> ParseFail (JError ''ZodError'' ''invalid field''))
      | _ \<Rightarrow> ParseFail (JError ''ZodError'' ''expected object''))"

section \<open>The registration service (\<^verbatim>\<open>createUser\<close>)\<close>

text \<open>
  Modelled from the spec: \<^verbatim>\<open>createUser\<close> of \<^verbatim>\<open>src/services/auth.service.js\<close>, which
  is not among the sources (only \<open>hashPassword\<close> of that file is). Section 4.4, in order:
  look up an account with the same email, and fail with the duplicate-account error if
  there is one; hash the password, a failure of which propagates; insert the account with
  the digest, the store assigning the id and the timestamps; return the view
  \<open>(id, name, email, role)\<close>. The duplicate-account error carries the message the controller
  tests for. The informational log events are left out: they never alter the control flow.
\<close>

definition next_id :: "account list \<Rightarrow> nat" where
  "next_id us = Suc (fold max (map acc_id us) 0)"

definition account_view :: "account \<Rightarrow> jsval" where
  "account_view a =
     JObj [(''id'', JNum (int (acc_id a))), (''name'', JStr (acc_name a)),
           (''email'', JStr (acc_email a)), (''role'', JStr (acc_role a))]"

definition DuplicateAccountError :: jsval where
  "DuplicateAccountError = JError ''Error'' ''User with this email already exists''"

definition createUser ::
  "bcrypt \<Rightarrow> logger \<Rightarrow> nat \<Rightarrow> string \<Rightarrow> string \<Rightarrow> string \<Rightarrow> string option \<Rightarrow> world
     \<Rightarrow> (jsval + jsval) \<times> world" where
  "createUser bcrypt_hash lg now name email password role w =
     (case find (\<lambda>a. acc_email a = email) (users w) of
        Some existing \<Rightarrow> (Inl DuplicateAccountError, w)
      | None \<Rightarrow>
          (case hashPassword bcrypt_hash lg (JStr password) w of
             (Inl ex, w1) \<Rightarrow> (Inl ex, w1)
           | (Inr digest, w1) \<Rightarrow>
               (let a = \<lparr>acc_id = next_id (users w1), acc_name = name, acc_email = email,
                          acc_password = digest,
                          acc_role = (case role of None \<Rightarrow> ''user'' | Some r \<Rightarrow> r),
                          acc_created_at = now, acc_updated_at = now\<rparr>
                in (Inr (account_view a), w1\<lparr>users := users w1 @ [a]\<rparr>))))"

section \<open>The cookie policy (\<^verbatim>\<open>cookies\<close>)\<close>

text \<open>
  Modelled from the spec: \<^verbatim>\<open>cookies.getOptions\<close> and \<^verbatim>\<open>cookies.set\<close> of
  \<^verbatim>\<open>src/utils/cookies.js\<close>, which is not among the sources. Section 4.3: HTTP-only is
  always true, same-site is strict, the secure flag is set exactly in production mode
  (\<^verbatim>\<open>NODE_ENV === 'production'\<close>), the max-age is a fixed default of 15 minutes;
  \<^verbatim>\<open>set\<close> merges the overrides of the call onto the defaults, the override winning
  per attribute, and sets the cookie on the response.
\<close>

record cookie_overrides =
  o_httpOnly :: "bool option"
  o_sameSite :: "same_site option"
  o_secure :: "bool option"
  o_maxAge :: "nat option"

definition getOptions :: "string option \<Rightarrow> cookie_options" where
  "getOptions NODE_ENV =
     \<lparr>httpOnly = True, sameSite = Strict, secure = (NODE_ENV = Some ''production''),
      maxAge = 15 * 60 * 1000\<rparr>"

definition merge_options :: "cookie_options \<Rightarrow> cookie_overrides \<Rightarrow> cookie_options" where
  "merge_options d ov =
     \<lparr>httpOnly = (case o_httpOnly ov of None \<Rightarrow> httpOnly d | Some v \<Rightarrow> v),
      sameSite = (case o_sameSite ov of None \<Rightarrow> sameSite d | Some v \<Rightarrow> v),
      secure = (case o_secure ov of None \<Rightarrow> secure d | Some v \<Rightarrow> v),
      maxAge = (case o_maxAge ov of None \<Rightarrow> maxAge d | Some v \<Rightarrow> v)\<rparr>"

definition cookies_set ::
  "string option \<Rightarrow> string \<Rightarrow> string \<Rightarrow> cookie_overrides \<Rightarrow> world \<Rightarrow> world" where
  "cookies_set NODE_ENV name v ov w =
     w\<lparr>res_cookies := res_cookies w @ [(name, v, merge_options (getOptions NODE_ENV) ov)]\<rparr>"

section \<open>Concrete inputs\<close>

text \<open>
  The inputs at which the functions are evaluated below: three request bodies (the third
  repeats the email of the first), the stored account of the first, an email check and
  token primitives small enough to compute with.
\<close>

definition has_at :: "string \<Rightarrow> bool" where
  "has_at e = (CHR ''@'' \<in> set e)"

definition body_A :: jsval where
  "body_A = JObj [(''name'', JStr ''A''), (''email'', JStr ''a@x.com''),
                  (''password'', JStr ''secret123''), (''role'', JStr ''user'')]"

definition body_B :: jsval where
  "body_B = JObj [(''name'', JStr ''B''), (''email'', JStr ''b@x.com''),
                  (''password'', JStr ''secret456''), (''role'', JStr ''admin'')]"

definition body_A2 :: jsval where
  "body_A2 = JObj [(''name'', JStr ''A2''), (''email'', JStr ''a@x.com''),
                   (''password'', JStr ''secret789''), (''role'', JStr ''user'')]"

definition account_A :: account where
  "account_A = \<lparr>acc_id = 1, acc_name = ''A'', acc_email = ''a@x.com'',
      acc_password = ''$2b$10$digest'', acc_role = ''user'', acc_created_at = 0,
      acc_updated_at = 0\<rparr>"

definition toy_primitives :: jwt_primitives where
  "toy_primitives =
     \<lparr>mac = (\<lambda>s x. s),
      encode = (\<lambda>j. ''tok''),
      decode = (\<lambda>t. if t = ''tok''
                 then Some \<lparr>jwt_payload = JObj [(''id'', JNum 1), (''role'', JStr ''user'')],
                             jwt_iat = 1000, jwt_exp = 87400, jwt_signature = ''k''\<rparr>
                 else None)\<rparr>"

section \<open>Properties\<close>

subsection \<open>The logger\<close>

lemma winston_has_no_e: "''e'' \<notin> set winston"
  by (simp add: winston_def)

lemma winston_has_error: "''error'' \<in> set winston"
  by (simp add: winston_def)

lemma winston_has_info: "''info'' \<in> set winston"
  by (simp add: winston_def)

subsection \<open>Password hashing\<close>

lemma js_new_non_constructor:
  "\<not> is_constructor f \<Longrightarrow> js_new nm f m = Inl (JError ''TypeError'' (nm @ '' is not a constructor''))"
  by (cases f) simp_all

lemma hashPassword_resolves:
  "bcrypt_hash password 10 = Inr digest \<Longrightarrow>
   hashPassword bcrypt_hash lg password w
     = (Inr digest, w\<lparr>hash_calls := hash_calls w @ [password]\<rparr>)"
  by (simp add: hashPassword_def)

text \<open>
  Claim C10. Whenever \<^verbatim>\<open>bcrypt.hash\<close> rejects (with a value that is not a constructor, as
  every \<open>Error\<close> instance is), \<open>hashPassword\<close> rejects with a \<open>TypeError\<close>: the catch clause
  applies \<^verbatim>\<open>new\<close> to the caught value. So it never rejects with an \<open>Error\<close> whose message
  is \<^verbatim>\<open>Error hashing\<close>.
\<close>

theorem hashPassword_reject_is_TypeError:
  assumes "bcrypt_hash password 10 = Inl e" and "\<not> is_constructor e"
  shows "\<exists>ex. fst (hashPassword bcrypt_hash lg password w) = Inl ex \<and> is_TypeError ex
           \<and> ex \<noteq> JError ''Error'' ''Error hashing''"
proof (cases "''error'' \<in> set lg")
  case True
  with assms show ?thesis
    by (simp add: hashPassword_def call_logger_def js_new_non_constructor)
next
  case False
  with assms show ?thesis
    by (simp add: hashPassword_def call_logger_def)
qed

theorem hashPassword_reject_is_TypeError_witness:
  "fst (hashPassword (\<lambda>p r. Inl (JError ''Error'' ''data and salt arguments required''))
          winston JUndefined world0)
     = Inl (JError ''TypeError'' ''error is not a constructor'')"
  using hashPassword_reject_is_TypeError
    [of "\<lambda>p r. Inl (JError ''Error'' ''data and salt arguments required'')" JUndefined
        "JError ''Error'' ''data and salt arguments required''" winston world0]
  by (simp add: hashPassword_def call_logger_def winston_def world0_def)

subsection \<open>Session tokens\<close>

lemma jwttoken_verify_rethrow:
  "lib_verify jwt token secret now = Inl e \<Longrightarrow> ''error'' \<in> set lg \<Longrightarrow>
   jwttoken_verify jwt lg secret now token w =
     (Inl (JError ''Error'' ''Failed to verify''),
      w\<lparr>logs := logs w @ [(''error'', [JStr ''Failed to verify'', e])]\<rparr>)"
  by (simp add: jwttoken_verify_def call_logger_def)




text \<open>
  The catch clause of \<open>sign\<close> calls \<^verbatim>\<open>logger.e\<close>. On a logger without that method the
  call throws, and the \<^verbatim>\<open>throw new Error('Failed to authenticat')\<close> after it is never
  reached; on a logger that has it, that error is thrown.
\<close>

lemma jwttoken_sign_logger_e:
  "lib_sign jwt payload secret JWT_EXPIRES_IN now = Inl e \<Longrightarrow> ''e'' \<notin> set lg \<Longrightarrow>
   jwttoken_sign jwt lg secret now payload w =
     (Inl (JError ''TypeError'' ''logger.e is not a function''), w)"
  by (simp add: jwttoken_sign_def call_logger_def)

lemma jwttoken_sign_intended:
  "lib_sign jwt payload secret JWT_EXPIRES_IN now = Inl e \<Longrightarrow> ''e'' \<in> set lg \<Longrightarrow>
   fst (jwttoken_sign jwt lg secret now payload w) = Inl (JError ''Error'' ''Failed to authenticat'')"
  by (simp add: jwttoken_sign_def call_logger_def)

lemma spec_sign_no_secret:
  "lib_sign (jsonwebtoken P) payload None ex now
     = Inl (JError ''Error'' ''secretOrPrivateKey must have a value'')"
  by (simp add: jsonwebtoken_def spec_sign_def)



text \<open>The three ways a token is rejected by the modelled library, each with its own error.\<close>

lemma spec_verify_malformed:
  "decode P tok = None \<Longrightarrow>
   lib_verify (jsonwebtoken P) tok (Some s) now = Inl (JError ''JsonWebTokenError'' ''jwt malformed'')"
  by (simp add: jsonwebtoken_def spec_verify_def)

lemma spec_verify_signature_mismatch:
  "decode P tok = Some j \<Longrightarrow> jwt_signature j \<noteq> mac P s (jwt_payload j, jwt_iat j, jwt_exp j) \<Longrightarrow>
   lib_verify (jsonwebtoken P) tok (Some s) now
     = Inl (JError ''JsonWebTokenError'' ''invalid signature'')"
  by (simp add: jsonwebtoken_def spec_verify_def)

lemma spec_verify_expired:
  "decode P tok = Some j \<Longrightarrow> jwt_signature j = mac P s (jwt_payload j, jwt_iat j, jwt_exp j) \<Longrightarrow>
   jwt_exp j \<le> now \<Longrightarrow>
   lib_verify (jsonwebtoken P) tok (Some s) now = Inl (JError ''TokenExpiredError'' ''jwt expired'')"
  by (simp add: jsonwebtoken_def spec_verify_def)



text \<open>
  Claim C6. Whenever the library's verification rejects a token, with whatever error (a
  malformed, an expired and a signature-mismatched token are rejected with different ones),
  \<open>verify\<close> throws the one error \<^verbatim>\<open>Error('Failed to verify')\<close>: the same for every
  sub-case, no other error, and no payload. The logger is any logger with an \<^verbatim>\<open>error\<close>
  method.
\<close>

theorem jwttoken_verify_single_error:
  assumes "lib_verify jwt token secret now = Inl e" and "''error'' \<in> set lg"
  shows "fst (jwttoken_verify jwt lg secret now token w) = Inl (JError ''Error'' ''Failed to verify'')"
  using assms by (simp add: jwttoken_verify_rethrow)

theorem jwttoken_verify_single_error_witness:
  "fst (jwttoken_verify (jsonwebtoken toy_primitives) winston (Some ''k'') 1000 ''garbage'' world0)
     = Inl (JError ''Error'' ''Failed to verify'')"
  using jwttoken_verify_single_error
    [of "jsonwebtoken toy_primitives" "''garbage''" "Some ''k''" 1000
        "JError ''JsonWebTokenError'' ''jwt malformed''" winston world0]
  by (simp add: jsonwebtoken_def spec_verify_def toy_primitives_def winston_def)

text \<open>
  Claim C7, evaluated with the secret absent and the Winston logger: the library's signing
  throws, the catch clause calls \<^verbatim>\<open>logger.e\<close>, which is not a function, and \<open>sign\<close>
  throws that \<open>TypeError\<close> instead of \<^verbatim>\<open>Error('Failed to authenticat')\<close>.
\<close>

theorem jwttoken_sign_absent_secret:
  "fst (jwttoken_sign (jsonwebtoken P) winston None now payload w)
     = Inl (JError ''TypeError'' ''logger.e is not a function'')"
  by (simp add: jwttoken_sign_logger_e [OF spec_sign_no_secret winston_has_no_e])

subsection \<open>The signup controller\<close>

text \<open>
  On every validated input (and a logger with an \<^verbatim>\<open>info\<close> method) the controller logs
  and answers 201 with the constant \<^verbatim>\<open>Id: 1\<close> and the validated name, email and role.
\<close>

lemma signup_valid_input:
  assumes "safeParse body = ParseOk data" and "''info'' \<in> set lg"
  shows "signup safeParse fmt lg body w =
     (Returned,
      res_status_json 201
        (JObj [(''message'', JStr ''User registered''), (''Id'', JNum 1),
               (''name'', js_get data ''name''), (''email'', js_get data ''email''),
               (''role'', js_get data ''role'')])
        (w\<lparr>logs := logs w @ [(''info'', [JStr ''User registered succussfully: ${email}''])]\<rparr>))"
  using assms by (simp add: signup_def signup_try_def call_logger_def)

lemma signup_invalid_input:
  assumes "safeParse body = ParseFail zerr"
  shows "signup safeParse fmt lg body w =
     (Returned,
      res_status_json 400
        (JObj [(''error'', JStr ''Validation failed''), (''details'', fmt zerr)]) w)"
  using assms by (simp add: signup_def signup_try_def)

text \<open>
  Whatever the input, the controller leaves the users table, the hasher and the cookies of
  the response alone.
\<close>

lemma signup_frame:
  "users (snd (signup safeParse fmt lg body w)) = users w
   \<and> hash_calls (snd (signup safeParse fmt lg body w)) = hash_calls w
   \<and> res_cookies (snd (signup safeParse fmt lg body w)) = res_cookies w"
  by (auto simp: signup_def signup_try_def signup_catch_def call_logger_def res_status_json_def
      Let_def split: parse_result.splits sum.splits)

lemma parse_body_A:
  "signupSchema has_at 8 body_A = ParseOk [(''name'', JStr ''A''), (''email'', JStr ''a@x.com''),
      (''password'', JStr ''secret123''), (''role'', JStr ''user'')]"
  by (simp add: signupSchema_def body_A_def str_field_def role_field_def js_get_def has_at_def)

lemma parse_body_B:
  "signupSchema has_at 8 body_B = ParseOk [(''name'', JStr ''B''), (''email'', JStr ''b@x.com''),
      (''password'', JStr ''secret456''), (''role'', JStr ''admin'')]"
  by (simp add: signupSchema_def body_B_def str_field_def role_field_def js_get_def has_at_def)

lemma parse_body_A2:
  "signupSchema has_at 8 body_A2 = ParseOk [(''name'', JStr ''A2''), (''email'', JStr ''a@x.com''),
      (''password'', JStr ''secret789''), (''role'', JStr ''user'')]"
  by (simp add: signupSchema_def body_A2_def str_field_def role_field_def js_get_def has_at_def)

text \<open>
  Claim C1, evaluated at the valid body \<open>body_A\<close>: the controller answers 201 at once. No
  account is created and nothing is hashed (the registration service is not called), and
  no cookie is set on the response (no token is signed or attached).
\<close>

theorem signup_skips_service_and_token:
  "fst (signup (signupSchema has_at 8) fmt winston body_A world0) = Returned
   \<and> res_status (snd (signup (signupSchema has_at 8) fmt winston body_A world0)) = 201
   \<and> users (snd (signup (signupSchema has_at 8) fmt winston body_A world0)) = []
   \<and> hash_calls (snd (signup (signupSchema has_at 8) fmt winston body_A world0)) = []
   \<and> res_cookies (snd (signup (signupSchema has_at 8) fmt winston body_A world0)) = []"
  by (simp add: signup_valid_input [of "signupSchema has_at 8" body_A _ winston,
        OF parse_body_A winston_has_info] res_status_json_def world0_def)

text \<open>
  Claim C2, evaluated at two valid bodies registered one after the other: both answers
  carry the key \<^verbatim>\<open>Id\<close> with the constant 1 (and a \<^verbatim>\<open>message\<close>), beside the name,
  email and role of the input; there is no key \<^verbatim>\<open>id\<close>.
\<close>

theorem signup_id_is_constant:
  "res_body (snd (signup (signupSchema has_at 8) fmt winston body_A world0))
     = Some (JObj [(''message'', JStr ''User registered''), (''Id'', JNum 1),
                   (''name'', JStr ''A''), (''email'', JStr ''a@x.com''), (''role'', JStr ''user'')])
   \<and> res_body (snd (signup (signupSchema has_at 8) fmt winston body_B
                        (snd (signup (signupSchema has_at 8) fmt winston body_A world0))))
     = Some (JObj [(''message'', JStr ''User registered''), (''Id'', JNum 1),
                   (''name'', JStr ''B''), (''email'', JStr ''b@x.com''), (''role'', JStr ''admin'')])"
  by (simp add: signup_valid_input [of "signupSchema has_at 8" body_A _ winston,
        OF parse_body_A winston_has_info]
      signup_valid_input [of "signupSchema has_at 8" body_B _ winston,
        OF parse_body_B winston_has_info] res_status_json_def js_get_def)

text \<open>
  Claim C3, evaluated at a valid body whose email is that of an account already in the
  users table: the controller answers 201 with \<^verbatim>\<open>User registered\<close>, not 409.
\<close>

theorem signup_existing_email_201:
  "fst (signup (signupSchema has_at 8) fmt winston body_A2 (world0\<lparr>users := [account_A]\<rparr>))
     = Returned
   \<and> res_status (snd (signup (signupSchema has_at 8) fmt winston body_A2
                         (world0\<lparr>users := [account_A]\<rparr>))) = 201
   \<and> res_body (snd (signup (signupSchema has_at 8) fmt winston body_A2
                       (world0\<lparr>users := [account_A]\<rparr>)))
       = Some (JObj [(''message'', JStr ''User registered''), (''Id'', JNum 1),
                     (''name'', JStr ''A2''), (''email'', JStr ''a@x.com''), (''role'', JStr ''user'')])"
  by (simp add: signup_valid_input [of "signupSchema has_at 8" body_A2 _ winston,
        OF parse_body_A2 winston_has_info] res_status_json_def js_get_def)

text \<open>
  The 409 answer is reached only when something in the \<^verbatim>\<open>try\<close> block throws an error
  with the duplicate message, which no call of the block does.
\<close>

lemma signup_catch_duplicate:
  "''error'' \<in> set lg \<Longrightarrow>
   signup_catch lg DuplicateAccountError w =
     (Returned,
      res_status_json 409 (JObj [(''error'', JStr ''email already exists'')])
        (w\<lparr>logs := logs w @ [(''error'', [JStr ''signup error'', DuplicateAccountError])]\<rparr>))"
  by (simp add: signup_catch_def call_logger_def DuplicateAccountError_def)

lemma signup_never_409:
  "res_status w \<noteq> 409 \<Longrightarrow> res_status (snd (signup safeParse fmt lg body w)) \<noteq> 409"
  by (auto simp: signup_def signup_try_def signup_catch_def call_logger_def res_status_json_def
      Let_def split: parse_result.splits sum.splits)

subsection \<open>The registration service\<close>

lemma find_email_present:
  "email \<in> acc_email ` set us \<Longrightarrow> \<exists>a. find (\<lambda>a. acc_email a = email) us = Some a"
  by (cases "find (\<lambda>a. acc_email a = email) us") (auto simp: find_None_iff)

text \<open>On the other path the hasher is called, once, with the password.\<close>

lemma createUser_fresh_hashes_once:
  assumes "email \<notin> acc_email ` set (users w)"
  shows "hash_calls (snd (createUser bcrypt_hash lg now name email password role w))
           = hash_calls w @ [JStr password]"
proof -
  have "find (\<lambda>a. acc_email a = email) (users w) = None"
    using assms by (auto simp: find_None_iff)
  then show ?thesis
    by (auto simp: createUser_def hashPassword_def call_logger_def Let_def
        split: sum.splits prod.splits option.splits if_splits)
qed

text \<open>
  Claim C8. When an account with the email exists, \<open>createUser\<close> fails with the
  duplicate-account error and the world is as it was: the hasher has not been called (the
  check comes first), nothing has been inserted, no further step has run.
\<close>

theorem createUser_duplicate_before_hash:
  assumes "email \<in> acc_email ` set (users w)"
  shows "createUser bcrypt_hash lg now name email password role w = (Inl DuplicateAccountError, w)"
  using find_email_present [OF assms] by (auto simp: createUser_def)

theorem createUser_duplicate_before_hash_witness:
  "createUser (\<lambda>p r. Inr ''$2b$10$other'') winston 5 ''A2'' ''a@x.com'' ''secret789'' None
     (world0\<lparr>users := [account_A]\<rparr>)
   = (Inl (JError ''Error'' ''User with this email already exists''),
      world0\<lparr>users := [account_A]\<rparr>)"
  using createUser_duplicate_before_hash
    [of "''a@x.com''" "world0\<lparr>users := [account_A]\<rparr>" "\<lambda>p r. Inr ''$2b$10$other''" winston 5
        "''A2''" "''secret789''" None]
  by (simp add: account_A_def DuplicateAccountError_def)

subsection \<open>The cookie policy\<close>

text \<open>
  Claim C9. The default attributes have HTTP-only true and same-site strict, the secure flag
  exactly in production mode, and the fixed max-age of 15 minutes (900000 ms); merged with
  the overrides of a call, each attribute is the override when there is one and the default
  otherwise, and that is what \<open>set\<close> puts on the response.
\<close>

theorem cookie_default_attributes:
  "httpOnly (getOptions env) = True
   \<and> sameSite (getOptions env) = Strict
   \<and> secure (getOptions env) = (env = Some ''production'')
   \<and> maxAge (getOptions env) = 900000
   \<and> httpOnly (merge_options (getOptions env) ov)
       = (case o_httpOnly ov of None \<Rightarrow> True | Some v \<Rightarrow> v)
   \<and> sameSite (merge_options (getOptions env) ov)
       = (case o_sameSite ov of None \<Rightarrow> Strict | Some v \<Rightarrow> v)
   \<and> secure (merge_options (getOptions env) ov)
       = (case o_secure ov of None \<Rightarrow> env = Some ''production'' | Some v \<Rightarrow> v)
   \<and> maxAge (merge_options (getOptions env) ov)
       = (case o_maxAge ov of None \<Rightarrow> 900000 | Some v \<Rightarrow> v)
   \<and> res_cookies (cookies_set env name v ov w)
       = res_cookies w @ [(name, v, merge_options (getOptions env) ov)]"
  by (simp add: getOptions_def merge_options_def cookies_set_def split: option.splits)

end
